theory Spec2Isabelle
  imports Main
begin

section \<open>The pull request script \<^verbatim>\<open>create_issue_19_pr.py\<close>\<close>

text \<open>
  The script talks to a hosting service through the PyGithub client. The client is not
  part of the repository, so it is a parameter of the model: a record of reply functions.
  Every call the script makes is appended to a log, and each reply may depend on the log
  of the calls made before it, so a client whose answers change over time (a second
  create call rejected as a duplicate) is one value of the record. A Python exception is
  a value of \<open>exn\<close>; a function that may raise returns \<open>exn + 'a\<close> with \<open>Inl\<close> for the
  exception.

  The statements at module level (lines 9 to 21) run before any function: \<^verbatim>\<open>load_dotenv\<close>
  fills the environment, so \<open>env\<close> below is the environment after it, and the import guard
  ends the process when the client library is missing, so the functions below run only
  with the library present.
\<close>

subsection \<open>Exceptions, objects of the client library, recorded calls\<close>

text \<open>
  The script tells exceptions apart in two ways only: whether \<^verbatim>\<open>except Exception\<close> catches
  them, and what \<^verbatim>\<open>str(e)\<close> does. \<open>ValueError\<close> and \<open>GithubException\<close> derive from
  \<^verbatim>\<open>Exception\<close> and carry a message. \<open>StrRaises e\<close> is an exception derived from
  \<^verbatim>\<open>Exception\<close> whose \<^verbatim>\<open>__str__\<close> raises \<open>e\<close>. \<open>KeyboardInterrupt\<close> and \<open>SystemExit\<close> derive
  from \<^verbatim>\<open>BaseException\<close> only.
\<close>

datatype exn =
    ValueError string
  | GithubException string
  | StrRaises exn
  | KeyboardInterrupt
  | SystemExit

text \<open>\<^verbatim>\<open>isinstance(e, Exception)\<close>: what \<^verbatim>\<open>except Exception\<close> catches.\<close>

fun is_exception :: "exn \<Rightarrow> bool" where
  "is_exception (ValueError m) = True"
| "is_exception (GithubException m) = True"
| "is_exception (StrRaises e) = True"
| "is_exception KeyboardInterrupt = False"
| "is_exception SystemExit = False"

text \<open>\<^verbatim>\<open>str(e)\<close>: the message, or the exception that \<^verbatim>\<open>__str__\<close> raises.\<close>

fun py_str :: "exn \<Rightarrow> exn + string" where
  "py_str (ValueError m) = Inr m"
| "py_str (GithubException m) = Inr m"
| "py_str (StrRaises e) = Inl e"
| "py_str KeyboardInterrupt = Inr []"
| "py_str SystemExit = Inr []"

datatype github = Github string

datatype repository = Repository string

datatype label = Label string

datatype pull_request = PullRequest (number: int) (html_url: string)

datatype call =
    NewGithub string
  | GetRepo github string
  | CreatePull repository string string string string
  | GetLabel repository string
  | AddToLabels pull_request "label list"

text \<open>
  The client: \<^verbatim>\<open>Github(token)\<close>, \<^verbatim>\<open>g.get_repo(name)\<close>,
  \<^verbatim>\<open>repo.create_pull(title, body, head, base)\<close>, \<^verbatim>\<open>repo.get_label(name)\<close> and
  \<^verbatim>\<open>pr.add_to_labels(*labels)\<close>. The last argument of each field is the log of the calls
  made so far.
\<close>

record client =
  new_github :: "string \<Rightarrow> call list \<Rightarrow> exn + github"
  get_repo :: "github \<Rightarrow> string \<Rightarrow> call list \<Rightarrow> exn + repository"
  create_pull :: "repository \<Rightarrow> string \<Rightarrow> string \<Rightarrow> string \<Rightarrow> string \<Rightarrow> call list
                   \<Rightarrow> exn + pull_request"
  get_label :: "repository \<Rightarrow> string \<Rightarrow> call list \<Rightarrow> exn + label"
  add_to_labels :: "pull_request \<Rightarrow> label list \<Rightarrow> call list \<Rightarrow> exn + unit"

text \<open>The state the script changes: the calls made on the client and standard output.\<close>

record world =
  calls :: "call list"
  stdout :: string

text \<open>The process environment: \<^verbatim>\<open>os.getenv(name)\<close> is \<open>env name\<close>.\<close>

type_synonym env = "string \<Rightarrow> string option"

subsection \<open>Python primitives\<close>

definition invoke :: "call \<Rightarrow> (call list \<Rightarrow> exn + 'a) \<Rightarrow> world \<Rightarrow> (exn + 'a) \<times> world" where
  "invoke c reply w = (reply (calls w), w\<lparr>calls := calls w @ [c]\<rparr>)"

text \<open>\<^verbatim>\<open>print(s)\<close> writes the text and a line feed.\<close>

definition py_print :: "string \<Rightarrow> world \<Rightarrow> world" where
  "py_print s w = w\<lparr>stdout := stdout w @ s @ [CHR 0x0A]\<rparr>"

text \<open>Truth value of an optional string: \<^verbatim>\<open>None\<close> and the empty string are false.\<close>

fun truthy :: "string option \<Rightarrow> bool" where
  "truthy None = False"
| "truthy (Some s) = (s \<noteq> [])"

text \<open>\<^verbatim>\<open>a or b\<close>: the first operand when it is true, the second otherwise.\<close>

definition py_or :: "string option \<Rightarrow> string option \<Rightarrow> string option" where
  "py_or a b = (if truthy a then a else b)"

text \<open>The decimal text of an integer, as an f-string formats it.\<close>

fun str_nat :: "nat \<Rightarrow> string" where
  "str_nat n =
     (if n < 10 then [''0123456789'' ! n]
      else str_nat (n div 10) @ [''0123456789'' ! (n mod 10)])"

declare str_nat.simps [simp del]

definition str_int :: "int \<Rightarrow> string" where
  "str_int i = (if i < 0 then CHR ''-'' # str_nat (nat (- i)) else str_nat (nat i))"

subsection \<open>\<^verbatim>\<open>get_github_client\<close>\<close>

definition missing_token_message :: string where
  "missing_token_message =
     ''PRODUCT_GITHUB_TOKEN or GITHUB_TOKEN not found in environment variables''"

text \<open>Line 24: the first variable when it is set and not empty, the second otherwise.\<close>

definition token_of :: "env \<Rightarrow> string option" where
  "token_of env = py_or (env ''PRODUCT_GITHUB_TOKEN'') (env ''GITHUB_TOKEN'')"

text \<open>
  Lines 25 to 27: \<^verbatim>\<open>not token\<close> holds for \<^verbatim>\<open>None\<close> and for the empty string; otherwise the
  client is constructed from the token.
\<close>

definition get_github_client :: "env \<Rightarrow> client \<Rightarrow> world \<Rightarrow> (exn + github) \<times> world" where
  "get_github_client env cl w =
     (case token_of env of
        None \<Rightarrow> (Inl (ValueError missing_token_message), w)
      | Some token \<Rightarrow>
          if token = [] then (Inl (ValueError missing_token_message), w)
          else invoke (NewGithub token) (new_github cl token) w)"

subsection \<open>\<^verbatim>\<open>create_pull_request\<close>\<close>

text \<open>The two result strings and the warning, for a message \<open>m\<close>.\<close>

definition success_string :: "pull_request \<Rightarrow> string" where
  "success_string pr =
     ''Successfully created PR #'' @ str_int (number pr) @ '': '' @ html_url pr"

definition error_string :: "string \<Rightarrow> string" where
  "error_string m = ''Error creating GitHub PR: '' @ m"

definition warning_string :: "string \<Rightarrow> string \<Rightarrow> string" where
  "warning_string label_name m =
     ''Warning: Could not find label '' @ [CHR 0x27] @ label_name @ [CHR 0x27] @ '': '' @ m"

text \<open>
  The loop over the label names (lines 61 to 67): a label that resolves is appended to
  \<open>label_objects\<close>. When \<^verbatim>\<open>get_label\<close> raises, the handler of line 66 catches what derives
  from \<^verbatim>\<open>Exception\<close>, formats it into the warning and the loop goes on; an exception it
  does not catch, or one that the formatting raises, ends the loop.
\<close>

fun resolve_labels ::
  "client \<Rightarrow> repository \<Rightarrow> string list \<Rightarrow> label list \<Rightarrow> world
     \<Rightarrow> (exn + label list) \<times> world" where
  "resolve_labels cl repo [] label_objects w = (Inr label_objects, w)"
| "resolve_labels cl repo (label_name # rest) label_objects w =
     (case invoke (GetLabel repo label_name) (get_label cl repo label_name) w of
        (Inr l, w') \<Rightarrow> resolve_labels cl repo rest (label_objects @ [l]) w'
      | (Inl e, w') \<Rightarrow>
          if is_exception e then
            (case py_str e of
               Inr m \<Rightarrow>
                 resolve_labels cl repo rest label_objects
                   (py_print (warning_string label_name m) w')
             | Inl e' \<Rightarrow> (Inl e', w'))
          else (Inl e, w'))"

text \<open>
  The block under \<^verbatim>\<open>if labels:\<close> (lines 59 to 70). \<open>labels\<close> is \<open>None\<close> for Python's
  \<^verbatim>\<open>None\<close>; \<^verbatim>\<open>None\<close> and the empty list are both false.
\<close>

definition attach_labels ::
  "client \<Rightarrow> repository \<Rightarrow> pull_request \<Rightarrow> string list option \<Rightarrow> world \<Rightarrow> (exn + unit) \<times> world" where
  "attach_labels cl repo pr labels w =
     (case labels of
        None \<Rightarrow> (Inr (), w)
      | Some names \<Rightarrow>
          if names = [] then (Inr (), w)
          else
            (case resolve_labels cl repo names [] w of
               (Inl e, w') \<Rightarrow> (Inl e, w')
             | (Inr label_objects, w') \<Rightarrow>
                 if label_objects \<noteq> []
                 then invoke (AddToLabels pr label_objects) (add_to_labels cl pr label_objects) w'
                 else (Inr (), w')))"

text \<open>The body of the \<^verbatim>\<open>try\<close> (lines 49 to 72): the first exception ends it.\<close>

definition create_pull_request_try ::
  "env \<Rightarrow> client \<Rightarrow> string \<Rightarrow> string \<Rightarrow> string \<Rightarrow> string \<Rightarrow> string \<Rightarrow> string list option
     \<Rightarrow> world \<Rightarrow> (exn + string) \<times> world" where
  "create_pull_request_try env cl repo_name title body head base labels w =
     (case get_github_client env cl w of
        (Inl e, w1) \<Rightarrow> (Inl e, w1)
      | (Inr g, w1) \<Rightarrow>
     (case invoke (GetRepo g repo_name) (get_repo cl g repo_name) w1 of
        (Inl e, w2) \<Rightarrow> (Inl e, w2)
      | (Inr repo, w2) \<Rightarrow>
     (case invoke (CreatePull repo title body head base)
             (create_pull cl repo title body head base) w2 of
        (Inl e, w3) \<Rightarrow> (Inl e, w3)
      | (Inr pr, w3) \<Rightarrow>
     (case attach_labels cl repo pr labels w3 of
        (Inl e, w4) \<Rightarrow> (Inl e, w4)
      | (Inr u, w4) \<Rightarrow> (Inr (success_string pr), w4)))))"

text \<open>
  The function with its handler (lines 48 to 75). The handler catches what derives from
  \<^verbatim>\<open>Exception\<close> and formats it with \<^verbatim>\<open>str(e)\<close>; an exception it does not catch, or one that
  \<^verbatim>\<open>str(e)\<close> raises inside the handler, leaves the function (\<open>Inl\<close>).
\<close>

definition create_pull_request ::
  "env \<Rightarrow> client \<Rightarrow> string \<Rightarrow> string \<Rightarrow> string \<Rightarrow> string \<Rightarrow> string \<Rightarrow> string list option
     \<Rightarrow> world \<Rightarrow> (exn + string) \<times> world" where
  "create_pull_request env cl repo_name title body head base labels w =
     (case create_pull_request_try env cl repo_name title body head base labels w of
        (Inr s, w') \<Rightarrow> (Inr s, w')
      | (Inl e, w') \<Rightarrow>
          if is_exception e then
            (case py_str e of
               Inr m \<Rightarrow> (Inr (error_string m), w')
             | Inl e' \<Rightarrow> (Inl e', w'))
          else (Inl e, w'))"

text \<open>
  A call site: \<open>base\<close> has the default \<^verbatim>\<open>"staging"\<close>, so a call may leave it out
  (\<open>None\<close> here is "no argument given"). \<open>labels\<close> has the default \<^verbatim>\<open>None\<close>, which is
  already a value of its type.
\<close>

definition create_pull_request_call ::
  "env \<Rightarrow> client \<Rightarrow> string \<Rightarrow> string \<Rightarrow> string \<Rightarrow> string \<Rightarrow> string option \<Rightarrow> string list option
     \<Rightarrow> world \<Rightarrow> (exn + string) \<times> world" where
  "create_pull_request_call env cl repo_name title body head base_arg labels =
     create_pull_request env cl repo_name title body head
       (case base_arg of None \<Rightarrow> ''staging'' | Some base \<Rightarrow> base) labels"

subsection \<open>\<^verbatim>\<open>main\<close>\<close>

text \<open>Lines joined by line feeds, as the triple-quoted literal reads.\<close>

fun join_lines :: "string list \<Rightarrow> string" where
  "join_lines [] = []"
| "join_lines [l] = l"
| "join_lines (l # ls) = l @ [CHR 0x0A] @ join_lines ls"

definition pr_body_lines :: "string list" where
  "pr_body_lines =
     [''## Issue #19: Concept Brief and Hydration UI Components'',
      [],
      ''This PR adds UI components for Issue #19 concept agent work.'',
      [],
      ''### Features'',
      ''- **Concept Brief Diff View**: Server-backed diff view for comparing concept options'',
      ''- **Hydration Diff View**: Diff view component for hydration proposals'',
      ''- **Unified Approvals System**: Centralized approval/reject/edit UI for all proposal types'',
      ''- **Horizontal Layout**: Chat panel on right with 25% min, 75% max constraints'',
      ''- **Supporting Components**: Progress, tabs, and diff renderer utilities'',
      [],
      ''### Layout Improvements'',
      ''- Converted chat panel from vertical (bottom) to horizontal (right) layout'',
      ''- Percentage-based sizing (default 40% width)'',
      ''- 25% minimum and 75% maximum constraints for both panels'',
      ''- Resizable divider with proper constraints'',
      [],
      ''### Components Added'',
      [],
      ''**New Files:**'',
      ''- `src/app/workbench/concept-brief/page.tsx` - Concept brief workbench page'',
      ''- `src/components/workbench/concept-brief-diff-view.tsx` - Concept brief option comparison'',
      ''- `src/app/workbench/hydration/page.tsx` - Hydration workbench page'',
      ''- `src/components/workbench/hydration-diff-view.tsx` - Hydration proposal diff view'',
      ''- `src/app/workbench/decisions/page.tsx` - Unified decisions page'',
      ''- `src/components/workbench/approval-card.tsx` - Approval/reject/edit card component'',
      ''- `src/components/workbench/hooks/use-unified-approvals.ts` - Unified approvals hook'',
      ''- `src/components/workbench/hooks/use-approval-count.ts` - Approval count hook'',
      ''- `src/lib/diff-types.ts` - Standardized diff interface types'',
      ''- `src/components/workbench/__tests__/hydration-diff-view.test.tsx` - Tests'',
      ''- `src/components/workbench/diff-renderers/` - Diff rendering utilities'',
      ''- `src/components/ui/progress.tsx` - Progress UI component'',
      ''- `src/components/ui/tabs.tsx` - Tabs UI component'',
      ''- `jest.config.cjs` - Testing configuration'',
      [],
      ''**Modified Files:**'',
      ''- `src/components/workbench/shell.tsx` - Horizontal layout with percentage-based sizing'',
      [],
      ''### Related'',
      ''- Issue #19: Concept agent implementation'',
      ''- Part of Issue #19 Phase 1: Template-Driven Agent Foundation'']"

definition pr_body :: string where
  "pr_body = join_lines pr_body_lines"

definition pr_repo_name :: string where
  "pr_repo_name = ''bcolemanau/agent-chat-ui''"

definition pr_head :: string where
  "pr_head = ''feature/issue-19-hydration-preview-view''"

definition pr_base :: string where
  "pr_base = ''staging''"

definition pr_title :: string where
  "pr_title = ''feat(issue-19): Concept brief and hydration diff views with horizontal layout''"

text \<open>
  \<^verbatim>\<open>main\<close> calls \<^verbatim>\<open>create_pull_request\<close> with the constants and an empty list of labels,
  prints the result and returns it. An exception out of the call would leave \<^verbatim>\<open>main\<close>
  before the \<^verbatim>\<open>print\<close>.
\<close>

definition main :: "env \<Rightarrow> client \<Rightarrow> world \<Rightarrow> (exn + string) \<times> world" where
  "main env cl w =
     (case create_pull_request env cl pr_repo_name pr_title pr_body pr_head pr_base (Some []) w of
        (Inl e, w') \<Rightarrow> (Inl e, w')
      | (Inr result, w') \<Rightarrow> (Inr result, py_print result w'))"

section \<open>Describing a run\<close>

text \<open>
  What the client answers to the \<^verbatim>\<open>get_label\<close> calls of the loop, when the loop starts at
  the log \<open>L\<close>: each name with its reply, in the order of the names.
\<close>

fun label_replies ::
  "client \<Rightarrow> repository \<Rightarrow> string list \<Rightarrow> call list \<Rightarrow> (string \<times> (exn + label)) list" where
  "label_replies cl repo [] L = []"
| "label_replies cl repo (n # ns) L =
     (n, get_label cl repo n L) # label_replies cl repo ns (L @ [GetLabel repo n])"

text \<open>
  An exception that a handler of the script turns into text: it derives from \<^verbatim>\<open>Exception\<close>
  and \<^verbatim>\<open>str(e)\<close> returns.
\<close>

definition ordinary :: "exn \<Rightarrow> bool" where
  "ordinary e = (is_exception e \<and> (case py_str e of Inl e' \<Rightarrow> False | Inr m \<Rightarrow> True))"

text \<open>A reply the loop survives: a label, or an exception of that kind.\<close>

fun passes :: "exn + label \<Rightarrow> bool" where
  "passes (Inr l) = True"
| "passes (Inl e) = ordinary e"



text \<open>The labels that resolved, and the warning lines of those that did not.\<close>

fun resolved :: "(string \<times> (exn + label)) list \<Rightarrow> label list" where
  "resolved [] = []"
| "resolved ((n, Inr l) # rs) = l # resolved rs"
| "resolved ((n, Inl e) # rs) = resolved rs"

fun warnings :: "(string \<times> (exn + label)) list \<Rightarrow> string" where
  "warnings [] = []"
| "warnings ((n, Inr l) # rs) = warnings rs"
| "warnings ((n, Inl e) # rs) =
     (case py_str e of Inr m \<Rightarrow> warning_string n m @ [CHR 0x0A] | Inl e' \<Rightarrow> [])
       @ warnings rs"

text \<open>The number of line feeds in a text.\<close>

definition line_feeds :: "string \<Rightarrow> nat" where
  "line_feeds s = length (filter (\<lambda>c. c = CHR 0x0A) s)"

text \<open>Which recorded calls are create calls, and which are attach calls.\<close>

fun is_create_pull :: "call \<Rightarrow> bool" where
  "is_create_pull (CreatePull repo title body head base) = True"
| "is_create_pull c = False"

fun is_add_to_labels :: "call \<Rightarrow> bool" where
  "is_add_to_labels (AddToLabels pr ls) = True"
| "is_add_to_labels c = False"

subsection \<open>A client for the examples\<close>

text \<open>
  A client that behaves like the hosting service in the ways the script can see: the
  labels in \<open>known\<close> resolve, the others do not; a pull request for a repository, head and
  base that already has one in the log is rejected.
\<close>

fun opens :: "repository \<Rightarrow> string \<Rightarrow> string \<Rightarrow> call \<Rightarrow> bool" where
  "opens repo head base (CreatePull repo' title body head' base') =
     (repo' = repo \<and> head' = head \<and> base' = base)"
| "opens repo head base c = False"

definition already_exists_message :: string where
  "already_exists_message = ''422 Validation Failed: A pull request already exists''"

definition fake_hub :: "string list \<Rightarrow> client" where
  "fake_hub known =
     \<lparr> new_github = (\<lambda>token L. Inr (Github token)),
       get_repo = (\<lambda>g name L. Inr (Repository name)),
       create_pull = (\<lambda>repo title body head base L.
          if list_ex (opens repo head base) L then Inl (GithubException already_exists_message)
          else Inr (PullRequest (int (length (filter is_create_pull L)) + 1) ''https://example.org/pull'')),
       get_label = (\<lambda>repo n L.
          if List.member known n then Inr (Label n) else Inl (GithubException ''404 Not Found'')),
       add_to_labels = (\<lambda>pr ls L. Inr ()) \<rparr>"

definition env_of :: "(string \<times> string) list \<Rightarrow> env" where
  "env_of kvs = map_of kvs"

definition start :: world where
  "start = \<lparr> calls = [], stdout = [] \<rparr>"

section \<open>What a run does\<close>

subsection \<open>The loop over the label names\<close>

text \<open>
  When every reply passes, the loop makes one \<^verbatim>\<open>get_label\<close> call for each name, keeps the
  labels that resolved in the order of the names, and prints one warning for each name
  that did not.
\<close>

lemma resolve_labels_eq:
  assumes "list_all (\<lambda>r. passes (snd r)) (label_replies cl repo ns (calls w))"
  shows "resolve_labels cl repo ns acc w =
     (Inr (acc @ resolved (label_replies cl repo ns (calls w))),
      w\<lparr>calls := calls w @ map (GetLabel repo) ns,
        stdout := stdout w @ warnings (label_replies cl repo ns (calls w))\<rparr>)"
  using assms
proof (induction ns arbitrary: acc w)
  case Nil
  then show ?case by simp
next
  case (Cons n ns)
  show ?case
  proof (cases "get_label cl repo n (calls w)")
    case (Inl e)
    with Cons.prems obtain m where m: "is_exception e" "py_str e = Inr m"
      by (auto simp add: ordinary_def split: sum.splits)
    from Cons.prems Inl
    have rest: "list_all (\<lambda>r. passes (snd r))
                  (label_replies cl repo ns
                     (calls (py_print (warning_string n m) (w\<lparr>calls := calls w @ [GetLabel repo n]\<rparr>))))"
      by (simp add: py_print_def)
    show ?thesis
      using Inl m Cons.IH [OF rest]
      by (simp add: invoke_def py_print_def)
  next
    case (Inr l)
    from Cons.prems Inr
    have rest: "list_all (\<lambda>r. passes (snd r))
                  (label_replies cl repo ns (calls (w\<lparr>calls := calls w @ [GetLabel repo n]\<rparr>)))"
      by simp
    show ?thesis
      using Inr Cons.IH [OF rest]
      by (simp add: invoke_def)
  qed
qed

text \<open>
  The loop returns exactly when every reply passes.
\<close>

lemma resolve_labels_returns:
  "(\<exists>objs. fst (resolve_labels cl repo ns acc w) = Inr objs)
     \<longleftrightarrow> list_all (\<lambda>r. passes (snd r)) (label_replies cl repo ns (calls w))"
proof (induction ns arbitrary: acc w)
  case Nil
  then show ?case by simp
next
  case (Cons n ns)
  show ?case
  proof (cases "get_label cl repo n (calls w)")
    case (Inl e)
    show ?thesis
    proof (cases "ordinary e")
      case True
      then obtain m where m: "is_exception e" "py_str e = Inr m"
        by (auto simp add: ordinary_def split: sum.splits)
      show ?thesis
        using Inl True m
          Cons.IH [of acc "py_print (warning_string n m) (w\<lparr>calls := calls w @ [GetLabel repo n]\<rparr>)"]
        by (simp add: invoke_def py_print_def)
    next
      case False
      then show ?thesis
        using Inl by (auto simp add: invoke_def ordinary_def split: sum.splits)
    qed
  next
    case (Inr l)
    show ?thesis
      using Inr Cons.IH [of "acc @ [l]" "w\<lparr>calls := calls w @ [GetLabel repo n]\<rparr>"]
      by (simp add: invoke_def)
  qed
qed

text \<open>
  Whatever the replies, the loop only adds \<^verbatim>\<open>get_label\<close> calls to the log.
\<close>

lemma resolve_labels_calls:
  "\<exists>ext. calls (snd (resolve_labels cl repo ns acc w)) = calls w @ ext
         \<and> filter is_create_pull ext = [] \<and> filter is_add_to_labels ext = []"
proof (induction ns arbitrary: acc w)
  case Nil
  then show ?case by simp
next
  case (Cons n ns)
  show ?case
  proof (cases "get_label cl repo n (calls w)")
    case (Inl e)
    show ?thesis
    proof (cases "is_exception e")
      case True
      show ?thesis
      proof (cases "py_str e")
        case bad: (Inl e')
        have "calls (snd (resolve_labels cl repo (n # ns) acc w)) = calls w @ [GetLabel repo n]"
          using Inl True bad by (simp add: invoke_def)
        then show ?thesis by simp
      next
        case (Inr m)
        from Cons.IH [of acc "py_print (warning_string n m) (w\<lparr>calls := calls w @ [GetLabel repo n]\<rparr>)"]
        obtain ext where
          "calls (snd (resolve_labels cl repo ns acc
              (py_print (warning_string n m) (w\<lparr>calls := calls w @ [GetLabel repo n]\<rparr>))))
             = (calls w @ [GetLabel repo n]) @ ext"
          and "filter is_create_pull ext = []" and "filter is_add_to_labels ext = []"
          by (auto simp add: py_print_def)
        then have "calls (snd (resolve_labels cl repo (n # ns) acc w))
                     = calls w @ (GetLabel repo n # ext)
             \<and> filter is_create_pull (GetLabel repo n # ext) = []
             \<and> filter is_add_to_labels (GetLabel repo n # ext) = []"
          using Inl True Inr by (simp add: invoke_def)
        then show ?thesis by blast
      qed
    next
      case False
      have "calls (snd (resolve_labels cl repo (n # ns) acc w)) = calls w @ [GetLabel repo n]"
        using Inl False by (simp add: invoke_def)
      then show ?thesis by simp
    qed
  next
    case (Inr l)
    from Cons.IH [of "acc @ [l]" "w\<lparr>calls := calls w @ [GetLabel repo n]\<rparr>"]
    obtain ext where
      "calls (snd (resolve_labels cl repo ns (acc @ [l]) (w\<lparr>calls := calls w @ [GetLabel repo n]\<rparr>)))
         = (calls w @ [GetLabel repo n]) @ ext"
      and "filter is_create_pull ext = []" and "filter is_add_to_labels ext = []"
      by auto
    then have "calls (snd (resolve_labels cl repo (n # ns) acc w))
                 = calls w @ (GetLabel repo n # ext)
         \<and> filter is_create_pull (GetLabel repo n # ext) = []
         \<and> filter is_add_to_labels (GetLabel repo n # ext) = []"
      using Inr by (simp add: invoke_def)
    then show ?thesis by blast
  qed
qed

subsection \<open>The steps of \<^verbatim>\<open>create_pull_request\<close>\<close>

lemma get_github_client_token:
  assumes "token_of env = Some tok" and "tok \<noteq> []"
  shows "get_github_client env cl w =
           (new_github cl tok (calls w), w\<lparr>calls := calls w @ [NewGithub tok]\<rparr>)"
  using assms by (simp add: get_github_client_def invoke_def)

lemma get_github_client_missing:
  assumes "token_of env = None \<or> token_of env = Some []"
  shows "get_github_client env cl w = (Inl (ValueError missing_token_message), w)"
  using assms by (auto simp add: get_github_client_def)

lemma attach_labels_eq:
  assumes "list_all (\<lambda>r. passes (snd r)) (label_replies cl repo names (calls w))"
  shows "attach_labels cl repo pr (Some names) w =
     (if resolved (label_replies cl repo names (calls w)) = []
      then (Inr (),
            w\<lparr>calls := calls w @ map (GetLabel repo) names,
              stdout := stdout w @ warnings (label_replies cl repo names (calls w))\<rparr>)
      else (add_to_labels cl pr (resolved (label_replies cl repo names (calls w)))
              (calls w @ map (GetLabel repo) names),
            w\<lparr>calls := calls w @ map (GetLabel repo) names
                   @ [AddToLabels pr (resolved (label_replies cl repo names (calls w)))],
              stdout := stdout w @ warnings (label_replies cl repo names (calls w))\<rparr>))"
proof (cases names)
  case Nil
  then show ?thesis by (simp add: attach_labels_def)
next
  case (Cons n ns)
  then show ?thesis
    using resolve_labels_eq [OF assms, of "[]"]
    by (simp add: attach_labels_def invoke_def del: resolve_labels.simps label_replies.simps)
qed


lemma attach_labels_empty:
  assumes "labels = None \<or> labels = Some []"
  shows "attach_labels cl repo pr labels w = (Inr (), w)"
  using assms by (auto simp add: attach_labels_def)

text \<open>
  Whatever the replies, the block under \<^verbatim>\<open>if labels:\<close> adds no create call, and it adds
  an attach call only when a label resolved.
\<close>

lemma attach_labels_calls:
  "\<exists>ext. calls (snd (attach_labels cl repo pr labels w)) = calls w @ ext
         \<and> filter is_create_pull ext = []
         \<and> (filter is_add_to_labels ext \<noteq> [] \<longrightarrow>
              (\<exists>names. labels = Some names
                 \<and> resolved (label_replies cl repo names (calls w)) \<noteq> []))"
proof (cases labels)
  case None
  then have "calls (snd (attach_labels cl repo pr labels w)) = calls w @ []"
    by (simp add: attach_labels_def)
  then show ?thesis by force
next
  case (Some names)
  show ?thesis
  proof (cases "list_all (\<lambda>r. passes (snd r)) (label_replies cl repo names (calls w))")
    case True
    show ?thesis
    proof (cases "resolved (label_replies cl repo names (calls w)) = []")
      case empty: True
      have "calls (snd (attach_labels cl repo pr labels w)) = calls w @ map (GetLabel repo) names"
        using Some empty attach_labels_eq [OF True, of pr] by simp
      moreover have "filter is_create_pull (map (GetLabel repo) names) = []"
        and "filter is_add_to_labels (map (GetLabel repo) names) = []"
        by (induction names) simp_all
      ultimately show ?thesis by force
    next
      case False
      have "calls (snd (attach_labels cl repo pr labels w)) =
              calls w @ (map (GetLabel repo) names
                @ [AddToLabels pr (resolved (label_replies cl repo names (calls w)))])"
        using Some False attach_labels_eq [OF True, of pr] by simp
      moreover have "filter is_create_pull (map (GetLabel repo) names) = []"
        by (induction names) simp_all
      then have "filter is_create_pull (map (GetLabel repo) names
                @ [AddToLabels pr (resolved (label_replies cl repo names (calls w)))]) = []"
        by simp
      ultimately show ?thesis using Some False by blast
    qed
  next
    case False
    then have no: "\<not> (\<exists>objs. fst (resolve_labels cl repo names [] w) = Inr objs)"
      by (simp add: resolve_labels_returns)
    from False have "names \<noteq> []" by auto
    obtain r w' where rw: "resolve_labels cl repo names [] w = (r, w')"
      by (cases "resolve_labels cl repo names [] w")
    with no obtain e where "r = Inl e" by (cases r) auto
    with rw \<open>names \<noteq> []\<close> Some
    have "snd (attach_labels cl repo pr labels w) = snd (resolve_labels cl repo names [] w)"
      by (simp add: attach_labels_def)
    with resolve_labels_calls [of cl repo names "[]" w]
    show ?thesis by force
  qed
qed

text \<open>
  The body of the \<^verbatim>\<open>try\<close>, by the first call that raises.
\<close>

lemma try_no_token:
  assumes "token_of env = None \<or> token_of env = Some []"
  shows "create_pull_request_try env cl repo_name title body head base labels w =
           (Inl (ValueError missing_token_message), w)"
  using assms by (simp add: create_pull_request_try_def get_github_client_missing)

lemma try_new_github_fails:
  assumes "token_of env = Some tok" and "tok \<noteq> []"
    and "new_github cl tok (calls w) = Inl e"
  shows "create_pull_request_try env cl repo_name title body head base labels w =
           (Inl e, w\<lparr>calls := calls w @ [NewGithub tok]\<rparr>)"
  using assms by (simp add: create_pull_request_try_def get_github_client_token)

lemma try_get_repo_fails:
  assumes "token_of env = Some tok" and "tok \<noteq> []"
    and "new_github cl tok (calls w) = Inr g"
    and "get_repo cl g repo_name (calls w @ [NewGithub tok]) = Inl e"
  shows "create_pull_request_try env cl repo_name title body head base labels w =
           (Inl e, w\<lparr>calls := calls w @ [NewGithub tok, GetRepo g repo_name]\<rparr>)"
  using assms by (simp add: create_pull_request_try_def get_github_client_token invoke_def)

lemma try_create_fails:
  assumes "token_of env = Some tok" and "tok \<noteq> []"
    and "new_github cl tok (calls w) = Inr g"
    and "get_repo cl g repo_name (calls w @ [NewGithub tok]) = Inr repo"
    and "create_pull cl repo title body head base (calls w @ [NewGithub tok, GetRepo g repo_name])
           = Inl e"
  shows "create_pull_request_try env cl repo_name title body head base labels w =
           (Inl e, w\<lparr>calls := calls w @ [NewGithub tok, GetRepo g repo_name,
                                            CreatePull repo title body head base]\<rparr>)"
  using assms
  by (simp add: create_pull_request_try_def get_github_client_token invoke_def)

lemma try_created:
  assumes "token_of env = Some tok" and "tok \<noteq> []"
    and "new_github cl tok (calls w) = Inr g"
    and "get_repo cl g repo_name (calls w @ [NewGithub tok]) = Inr repo"
    and "create_pull cl repo title body head base (calls w @ [NewGithub tok, GetRepo g repo_name])
           = Inr pr"
  shows "create_pull_request_try env cl repo_name title body head base labels w =
           (case attach_labels cl repo pr labels
                   (w\<lparr>calls := calls w @ [NewGithub tok, GetRepo g repo_name,
                                            CreatePull repo title body head base]\<rparr>) of
              (Inl e, w4) \<Rightarrow> (Inl e, w4)
            | (Inr u, w4) \<Rightarrow> (Inr (success_string pr), w4))"
  using assms
  by (simp add: create_pull_request_try_def get_github_client_token invoke_def)

text \<open>
  The handler of line 74, by what the body of the \<^verbatim>\<open>try\<close> did.
\<close>

lemma handler_world:
  "snd (create_pull_request env cl repo_name title body head base labels w) =
     snd (create_pull_request_try env cl repo_name title body head base labels w)"
  by (cases "create_pull_request_try env cl repo_name title body head base labels w")
     (auto simp add: create_pull_request_def split: sum.splits)

lemma handler_returned:
  assumes "create_pull_request_try env cl repo_name title body head base labels w = (Inr s, w')"
  shows "create_pull_request env cl repo_name title body head base labels w = (Inr s, w')"
  using assms by (simp add: create_pull_request_def)

lemma handler_caught:
  assumes "create_pull_request_try env cl repo_name title body head base labels w = (Inl e, w')"
    and "is_exception e" and "py_str e = Inr m"
  shows "create_pull_request env cl repo_name title body head base labels w =
           (Inr (''Error creating GitHub PR: '' @ m), w')"
  using assms by (simp add: create_pull_request_def error_string_def)




subsection \<open>Whole runs\<close>

text \<open>
  Runs that end in the handler with an exception it formats.
\<close>

lemma run_no_token:
  assumes "token_of env = None \<or> token_of env = Some []"
  shows "create_pull_request env cl repo_name title body head base labels w =
           (Inr (''Error creating GitHub PR: '' @ missing_token_message), w)"
  by (rule handler_caught [OF try_no_token [OF assms]]) simp_all

lemma run_new_github_fails:
  assumes "token_of env = Some tok" and "tok \<noteq> []"
    and "new_github cl tok (calls w) = Inl e"
    and "is_exception e" and "py_str e = Inr m"
  shows "create_pull_request env cl repo_name title body head base labels w =
           (Inr (''Error creating GitHub PR: '' @ m), w\<lparr>calls := calls w @ [NewGithub tok]\<rparr>)"
  by (rule handler_caught [OF try_new_github_fails [OF assms(1-3)] assms(4,5)])

lemma run_get_repo_fails:
  assumes "token_of env = Some tok" and "tok \<noteq> []"
    and "new_github cl tok (calls w) = Inr g"
    and "get_repo cl g repo_name (calls w @ [NewGithub tok]) = Inl e"
    and "is_exception e" and "py_str e = Inr m"
  shows "create_pull_request env cl repo_name title body head base labels w =
           (Inr (''Error creating GitHub PR: '' @ m),
            w\<lparr>calls := calls w @ [NewGithub tok, GetRepo g repo_name]\<rparr>)"
  by (rule handler_caught [OF try_get_repo_fails [OF assms(1-4)] assms(5,6)])

lemma run_create_fails:
  assumes "token_of env = Some tok" and "tok \<noteq> []"
    and "new_github cl tok (calls w) = Inr g"
    and "get_repo cl g repo_name (calls w @ [NewGithub tok]) = Inr repo"
    and "create_pull cl repo title body head base (calls w @ [NewGithub tok, GetRepo g repo_name])
           = Inl e"
    and "is_exception e" and "py_str e = Inr m"
  shows "create_pull_request env cl repo_name title body head base labels w =
           (Inr (''Error creating GitHub PR: '' @ m),
            w\<lparr>calls := calls w @ [NewGithub tok, GetRepo g repo_name,
                                     CreatePull repo title body head base]\<rparr>)"
  by (rule handler_caught [OF try_create_fails [OF assms(1-5)] assms(6,7)])

text \<open>
  Runs in which the pull request is created: without labels, and with a list of label
  names whose lookups all pass.
\<close>

lemma run_no_labels:
  assumes "token_of env = Some tok" and "tok \<noteq> []"
    and "new_github cl tok (calls w) = Inr g"
    and "get_repo cl g repo_name (calls w @ [NewGithub tok]) = Inr repo"
    and "create_pull cl repo title body head base (calls w @ [NewGithub tok, GetRepo g repo_name])
           = Inr pr"
    and "labels = None \<or> labels = Some []"
  shows "create_pull_request env cl repo_name title body head base labels w =
           (Inr (success_string pr),
            w\<lparr>calls := calls w @ [NewGithub tok, GetRepo g repo_name,
                                     CreatePull repo title body head base]\<rparr>)"
proof -
  have "create_pull_request_try env cl repo_name title body head base labels w =
           (Inr (success_string pr),
            w\<lparr>calls := calls w @ [NewGithub tok, GetRepo g repo_name,
                                     CreatePull repo title body head base]\<rparr>)"
    using try_created [OF assms(1-5), of labels] attach_labels_empty [OF assms(6)]
    by simp
  then show ?thesis by (rule handler_returned)
qed

lemma try_labels:
  assumes "token_of env = Some tok" and "tok \<noteq> []"
    and "new_github cl tok (calls w) = Inr g"
    and "get_repo cl g repo_name (calls w @ [NewGithub tok]) = Inr repo"
    and "create_pull cl repo title body head base (calls w @ [NewGithub tok, GetRepo g repo_name])
           = Inr pr"
    and "list_all (\<lambda>r. passes (snd r)) (label_replies cl repo names
           (calls w @ [NewGithub tok, GetRepo g repo_name, CreatePull repo title body head base]))"
  shows "create_pull_request_try env cl repo_name title body head base (Some names) w =
     (if resolved (label_replies cl repo names
            (calls w @ [NewGithub tok, GetRepo g repo_name, CreatePull repo title body head base])) = []
      then (Inr (success_string pr),
            w\<lparr>calls := calls w @ [NewGithub tok, GetRepo g repo_name,
                                     CreatePull repo title body head base]
                          @ map (GetLabel repo) names,
              stdout := stdout w @ warnings (label_replies cl repo names
                (calls w @ [NewGithub tok, GetRepo g repo_name, CreatePull repo title body head base]))\<rparr>)
      else (case add_to_labels cl pr
                   (resolved (label_replies cl repo names
                      (calls w @ [NewGithub tok, GetRepo g repo_name, CreatePull repo title body head base])))
                   (calls w @ [NewGithub tok, GetRepo g repo_name,
                               CreatePull repo title body head base] @ map (GetLabel repo) names) of
              Inl e \<Rightarrow> Inl e
            | Inr u \<Rightarrow> Inr (success_string pr),
            w\<lparr>calls := calls w @ [NewGithub tok, GetRepo g repo_name,
                                     CreatePull repo title body head base]
                          @ map (GetLabel repo) names
                          @ [AddToLabels pr (resolved (label_replies cl repo names
                               (calls w @ [NewGithub tok, GetRepo g repo_name,
                                           CreatePull repo title body head base])))],
              stdout := stdout w @ warnings (label_replies cl repo names
                (calls w @ [NewGithub tok, GetRepo g repo_name, CreatePull repo title body head base]))\<rparr>))"
proof -
  let ?w3 = "w\<lparr>calls := calls w @ [NewGithub tok, GetRepo g repo_name,
                                      CreatePull repo title body head base]\<rparr>"
  have p: "list_all (\<lambda>r. passes (snd r)) (label_replies cl repo names (calls ?w3))"
    using assms(6) by simp
  show ?thesis
    using try_created [OF assms(1-5), of "Some names"] attach_labels_eq [OF p, of pr]
    by (simp split: sum.splits)
qed

lemma run_labels_world:
  assumes "token_of env = Some tok" and "tok \<noteq> []"
    and "new_github cl tok (calls w) = Inr g"
    and "get_repo cl g repo_name (calls w @ [NewGithub tok]) = Inr repo"
    and "create_pull cl repo title body head base (calls w @ [NewGithub tok, GetRepo g repo_name])
           = Inr pr"
    and "list_all (\<lambda>r. passes (snd r)) (label_replies cl repo names
           (calls w @ [NewGithub tok, GetRepo g repo_name, CreatePull repo title body head base]))"
  shows "snd (create_pull_request env cl repo_name title body head base (Some names) w) =
      w\<lparr>calls := calls w @ [NewGithub tok, GetRepo g repo_name,
                                     CreatePull repo title body head base]
                   @ map (GetLabel repo) names
                   @ (if resolved (label_replies cl repo names
                            (calls w @ [NewGithub tok, GetRepo g repo_name,
                                        CreatePull repo title body head base])) = [] then []
                      else [AddToLabels pr (resolved (label_replies cl repo names
                               (calls w @ [NewGithub tok, GetRepo g repo_name,
                                           CreatePull repo title body head base])))]),
        stdout := stdout w @ warnings (label_replies cl repo names
                (calls w @ [NewGithub tok, GetRepo g repo_name, CreatePull repo title body head base]))\<rparr>"
  unfolding handler_world try_labels [OF assms]
  by simp

lemma run_labels_ok:
  assumes "token_of env = Some tok" and "tok \<noteq> []"
    and "new_github cl tok (calls w) = Inr g"
    and "get_repo cl g repo_name (calls w @ [NewGithub tok]) = Inr repo"
    and "create_pull cl repo title body head base (calls w @ [NewGithub tok, GetRepo g repo_name])
           = Inr pr"
    and "list_all (\<lambda>r. passes (snd r)) (label_replies cl repo names
           (calls w @ [NewGithub tok, GetRepo g repo_name, CreatePull repo title body head base]))"
    and "resolved (label_replies cl repo names
            (calls w @ [NewGithub tok, GetRepo g repo_name, CreatePull repo title body head base])) \<noteq> []
         \<longrightarrow> add_to_labels cl pr
                   (resolved (label_replies cl repo names
                      (calls w @ [NewGithub tok, GetRepo g repo_name, CreatePull repo title body head base])))
                   (calls w @ [NewGithub tok, GetRepo g repo_name,
                               CreatePull repo title body head base] @ map (GetLabel repo) names)
               = Inr ()"
  shows "fst (create_pull_request env cl repo_name title body head base (Some names) w)
           = Inr (success_string pr)"
proof -
  have "fst (create_pull_request_try env cl repo_name title body head base (Some names) w)
          = Inr (success_string pr)"
    using assms(7) unfolding try_labels [OF assms(1-6)] by auto
  then show ?thesis
    using handler_returned [of env cl repo_name title body head base "Some names" w]
    by (cases "create_pull_request_try env cl repo_name title body head base (Some names) w") simp
qed


text \<open>
  Every run is one of five: no token, no client, no repository, no pull request, or the
  pull request is created.
\<close>

lemma run_cases:
  obtains
    (no_token) "token_of env = None \<or> token_of env = Some []"
  | (no_client) tok e where "token_of env = Some tok" "tok \<noteq> []"
      "new_github cl tok (calls w) = Inl e"
  | (no_repo) tok g e where "token_of env = Some tok" "tok \<noteq> []"
      "new_github cl tok (calls w) = Inr g"
      "get_repo cl g repo_name (calls w @ [NewGithub tok]) = Inl e"
  | (no_pr) tok g repo e where "token_of env = Some tok" "tok \<noteq> []"
      "new_github cl tok (calls w) = Inr g"
      "get_repo cl g repo_name (calls w @ [NewGithub tok]) = Inr repo"
      "create_pull cl repo title body head base (calls w @ [NewGithub tok, GetRepo g repo_name])
         = Inl e"
  | (created) tok g repo pr where "token_of env = Some tok" "tok \<noteq> []"
      "new_github cl tok (calls w) = Inr g"
      "get_repo cl g repo_name (calls w @ [NewGithub tok]) = Inr repo"
      "create_pull cl repo title body head base (calls w @ [NewGithub tok, GetRepo g repo_name])
         = Inr pr"
proof (cases "token_of env")
  case None
  then show ?thesis using no_token by simp
next
  case (Some tok)
  show ?thesis
  proof (cases "tok = []")
    case True
    with Some show ?thesis using no_token by simp
  next
    case False
    show ?thesis
    proof (cases "new_github cl tok (calls w)")
      case (Inl e)
      with Some False show ?thesis using no_client by blast
    next
      case g: (Inr g)
      show ?thesis
      proof (cases "get_repo cl g repo_name (calls w @ [NewGithub tok])")
        case (Inl e)
        with Some False g show ?thesis using no_repo by blast
      next
        case r: (Inr repo)
        show ?thesis
        proof (cases "create_pull cl repo title body head base
                        (calls w @ [NewGithub tok, GetRepo g repo_name])")
          case (Inl e)
          with Some False g r show ?thesis using no_pr by blast
        next
          case (Inr pr)
          with Some False g r show ?thesis using created by blast
        qed
      qed
    qed
  qed
qed

text \<open>
  Once the repository is fetched, the run records exactly one create call.
\<close>

lemma create_call_recorded:
  assumes "token_of env = Some tok" and "tok \<noteq> []"
    and "new_github cl tok (calls w) = Inr g"
    and "get_repo cl g repo_name (calls w @ [NewGithub tok]) = Inr repo"
  shows "filter is_create_pull
           (drop (length (calls w))
              (calls (snd (create_pull_request env cl repo_name title body head base labels w))))
         = [CreatePull repo title body head base]"
proof (cases "create_pull cl repo title body head base
                (calls w @ [NewGithub tok, GetRepo g repo_name])")
  case (Inl e)
  show ?thesis
    unfolding handler_world try_create_fails [OF assms Inl] by simp
next
  case (Inr pr)
  let ?w3 = "w\<lparr>calls := calls w @ [NewGithub tok, GetRepo g repo_name,
                                      CreatePull repo title body head base]\<rparr>"
  obtain ext where ext: "calls (snd (attach_labels cl repo pr labels ?w3)) = calls ?w3 @ ext"
    and nc: "filter is_create_pull ext = []"
    using attach_labels_calls [of cl repo pr labels ?w3] by blast
  have "snd (create_pull_request_try env cl repo_name title body head base labels w)
          = snd (attach_labels cl repo pr labels ?w3)"
    unfolding try_created [OF assms Inr]
    by (cases "attach_labels cl repo pr labels ?w3") (auto split: sum.splits)
  then show ?thesis
    unfolding handler_world using ext nc by simp
qed



text \<open>
  Small facts for reading a log, counting line feeds and comparing the result strings.
\<close>

lemma filter_create_get_label [simp]: "filter is_create_pull (map (GetLabel repo) names) = []"
  by (induction names) simp_all

lemma filter_add_get_label [simp]: "filter is_add_to_labels (map (GetLabel repo) names) = []"
  by (induction names) simp_all



lemma line_feeds_append [simp]: "line_feeds (a @ b) = line_feeds a + line_feeds b"
  by (simp add: line_feeds_def)

lemma str_int_1: "str_int 1 = ''1''"
  by (simp add: str_int_def str_nat.simps)

subsection \<open>\<^verbatim>\<open>main\<close>\<close>

text \<open>
  \<^verbatim>\<open>main\<close> prints what the call returns; the call itself prints nothing, since \<^verbatim>\<open>main\<close> passes no labels.
\<close>

lemma main_returned:
  assumes "create_pull_request env cl pr_repo_name pr_title pr_body pr_head pr_base (Some []) w
             = (Inr r, w')"
  shows "main env cl w = (Inr r, w'\<lparr>stdout := stdout w' @ r @ [CHR 0x0A]\<rparr>)"
  using assms by (simp add: main_def py_print_def)

lemma main_call_prints_nothing:
  "stdout (snd (create_pull_request env cl pr_repo_name pr_title pr_body pr_head pr_base (Some []) w))
     = stdout w"
proof (cases rule: run_cases [where env = env and cl = cl and w = w and repo_name = pr_repo_name
          and title = pr_title and body = pr_body and head = pr_head and base = pr_base])
  case no_token
  then show ?thesis by (simp add: run_no_token)
next
  case (no_client tok e)
  show ?thesis
    unfolding handler_world try_new_github_fails [OF no_client] by simp
next
  case (no_repo tok g e)
  show ?thesis
    unfolding handler_world try_get_repo_fails [OF no_repo] by simp
next
  case (no_pr tok g repo e)
  show ?thesis
    unfolding handler_world try_create_fails [OF no_pr] by simp
next
  case (created tok g repo pr)
  show ?thesis
    using run_no_labels [OF created, of "Some []"] by simp
qed

subsection \<open>Runs against the example client\<close>

text \<open>
  The example of the specification: repository \<^verbatim>\<open>owner/repo\<close>, head \<^verbatim>\<open>feature/x\<close>, base
  \<^verbatim>\<open>main\<close>, labels \<^verbatim>\<open>bug\<close> and \<^verbatim>\<open>needs-review\<close>, of which only \<^verbatim>\<open>bug\<close> resolves. The example
  client raises only ordinary exceptions.
\<close>

lemmas run_defs =
  create_pull_request_def create_pull_request_try_def get_github_client_def token_of_def
  py_or_def env_of_def invoke_def attach_labels_def fake_hub_def start_def py_print_def
  error_string_def

lemma example_token: "token_of (env_of [(''GITHUB_TOKEN'', ''t'')]) = Some ''t''"
  by (simp add: token_of_def env_of_def py_or_def)

lemma example_created:
  "new_github (fake_hub known) ''t'' L = Inr (Github ''t'')"
  "get_repo (fake_hub known) (Github ''t'') ''owner/repo'' L' = Inr (Repository ''owner/repo'')"
  "create_pull (fake_hub known) (Repository ''owner/repo'') ''T'' ''B'' ''feature/x'' ''main''
       (calls start @ [NewGithub ''t'', GetRepo (Github ''t'') ''owner/repo''])
     = Inr (PullRequest 1 ''https://example.org/pull'')"
  by (simp_all add: fake_hub_def start_def)


lemma fake_hub_passes:
  "list_all (\<lambda>r. passes (snd r)) (label_replies (fake_hub known) repo names L)"
  by (induction names arbitrary: L) (simp_all add: fake_hub_def ordinary_def)


section \<open>The claims\<close>

subsection \<open>The credential\<close>

text \<open>
  Claim C5. The token \<^verbatim>\<open>get_github_client\<close> hands to the client constructor is the value of
  \<^verbatim>\<open>PRODUCT_GITHUB_TOKEN\<close> when that variable is set and not empty; otherwise it is the value
  of \<^verbatim>\<open>GITHUB_TOKEN\<close> when that one is set and not empty; and when neither is, the function
  raises the missing-credential \<^verbatim>\<open>ValueError\<close> and no constructor call is recorded (the
  world is unchanged).
\<close>

theorem get_github_client_credential:
  "(\<forall>p. env ''PRODUCT_GITHUB_TOKEN'' = Some p \<and> p \<noteq> [] \<longrightarrow>
        get_github_client env cl w =
          (new_github cl p (calls w), w\<lparr>calls := calls w @ [NewGithub p]\<rparr>))
   \<and> (\<forall>g. (env ''PRODUCT_GITHUB_TOKEN'' = None \<or> env ''PRODUCT_GITHUB_TOKEN'' = Some [])
          \<and> env ''GITHUB_TOKEN'' = Some g \<and> g \<noteq> [] \<longrightarrow>
        get_github_client env cl w =
          (new_github cl g (calls w), w\<lparr>calls := calls w @ [NewGithub g]\<rparr>))
   \<and> ((env ''PRODUCT_GITHUB_TOKEN'' = None \<or> env ''PRODUCT_GITHUB_TOKEN'' = Some [])
        \<and> (env ''GITHUB_TOKEN'' = None \<or> env ''GITHUB_TOKEN'' = Some []) \<longrightarrow>
        get_github_client env cl w = (Inl (ValueError missing_token_message), w))"
proof (intro conjI allI impI)
  fix p
  assume "env ''PRODUCT_GITHUB_TOKEN'' = Some p \<and> p \<noteq> []"
  then have "token_of env = Some p" and "p \<noteq> []"
    by (simp_all add: token_of_def py_or_def)
  then show "get_github_client env cl w =
          (new_github cl p (calls w), w\<lparr>calls := calls w @ [NewGithub p]\<rparr>)"
    by (rule get_github_client_token)
next
  fix g
  assume a: "(env ''PRODUCT_GITHUB_TOKEN'' = None \<or> env ''PRODUCT_GITHUB_TOKEN'' = Some [])
          \<and> env ''GITHUB_TOKEN'' = Some g \<and> g \<noteq> []"
  then have "token_of env = Some g" and "g \<noteq> []"
    by (auto simp add: token_of_def py_or_def)
  then show "get_github_client env cl w =
          (new_github cl g (calls w), w\<lparr>calls := calls w @ [NewGithub g]\<rparr>)"
    by (rule get_github_client_token)
next
  assume a: "(env ''PRODUCT_GITHUB_TOKEN'' = None \<or> env ''PRODUCT_GITHUB_TOKEN'' = Some [])
        \<and> (env ''GITHUB_TOKEN'' = None \<or> env ''GITHUB_TOKEN'' = Some [])"
  then have "token_of env = None \<or> token_of env = Some []"
    by (auto simp add: token_of_def py_or_def)
  then show "get_github_client env cl w = (Inl (ValueError missing_token_message), w)"
    by (rule get_github_client_missing)
qed

text \<open>
  The three cases at concrete environments: both variables set, the first one empty, and
  only an empty second one.
\<close>

theorem get_github_client_credential_witness:
  "get_github_client (env_of [(''PRODUCT_GITHUB_TOKEN'', ''ghp_product''), (''GITHUB_TOKEN'', ''ghp_plain'')])
       (fake_hub []) start
     = (Inr (Github ''ghp_product''), \<lparr>calls = [NewGithub ''ghp_product''], stdout = []\<rparr>)
   \<and> get_github_client (env_of [(''PRODUCT_GITHUB_TOKEN'', []), (''GITHUB_TOKEN'', ''ghp_plain'')])
       (fake_hub []) start
     = (Inr (Github ''ghp_plain''), \<lparr>calls = [NewGithub ''ghp_plain''], stdout = []\<rparr>)
   \<and> get_github_client (env_of [(''GITHUB_TOKEN'', [])]) (fake_hub []) start
     = (Inl (ValueError missing_token_message), start)"
proof (intro conjI)
  let ?e1 = "env_of [(''PRODUCT_GITHUB_TOKEN'', ''ghp_product''), (''GITHUB_TOKEN'', ''ghp_plain'')]"
  have "?e1 ''PRODUCT_GITHUB_TOKEN'' = Some ''ghp_product'' \<and> ''ghp_product'' \<noteq> []"
    by (simp add: env_of_def)
  with get_github_client_credential [of ?e1 "fake_hub []" start]
  show "get_github_client ?e1 (fake_hub []) start
     = (Inr (Github ''ghp_product''), \<lparr>calls = [NewGithub ''ghp_product''], stdout = []\<rparr>)"
    by (simp add: fake_hub_def start_def)
next
  let ?e2 = "env_of [(''PRODUCT_GITHUB_TOKEN'', []), (''GITHUB_TOKEN'', ''ghp_plain'')]"
  have "(?e2 ''PRODUCT_GITHUB_TOKEN'' = None \<or> ?e2 ''PRODUCT_GITHUB_TOKEN'' = Some [])
          \<and> ?e2 ''GITHUB_TOKEN'' = Some ''ghp_plain'' \<and> ''ghp_plain'' \<noteq> []"
    by (simp add: env_of_def)
  with get_github_client_credential [of ?e2 "fake_hub []" start]
  show "get_github_client ?e2 (fake_hub []) start
     = (Inr (Github ''ghp_plain''), \<lparr>calls = [NewGithub ''ghp_plain''], stdout = []\<rparr>)"
    by (simp add: fake_hub_def start_def)
next
  let ?e3 = "env_of [(''GITHUB_TOKEN'', [])]"
  have "(?e3 ''PRODUCT_GITHUB_TOKEN'' = None \<or> ?e3 ''PRODUCT_GITHUB_TOKEN'' = Some [])
        \<and> (?e3 ''GITHUB_TOKEN'' = None \<or> ?e3 ''GITHUB_TOKEN'' = Some [])"
    by (simp add: env_of_def)
  with get_github_client_credential [of ?e3 "fake_hub []" start]
  show "get_github_client ?e3 (fake_hub []) start = (Inl (ValueError missing_token_message), start)"
    by blast
qed

text \<open>
  Claim C6. When the credential lookup of line 24 yields no value (\<^verbatim>\<open>None\<close> or the empty
  string), \<^verbatim>\<open>get_github_client\<close> raises before the client is constructed, and
  \<^verbatim>\<open>create_pull_request\<close> returns the error string with the world unchanged: no constructor
  call, no repository fetch, no create call and no label call is recorded, and nothing is
  printed. The same holds for the calls of \<^verbatim>\<open>main\<close>.
\<close>

theorem missing_credential_no_call:
  assumes "token_of env = None \<or> token_of env = Some []"
  shows "get_github_client env cl w = (Inl (ValueError missing_token_message), w)
       \<and> create_pull_request env cl repo_name title body head base labels w =
           (Inr (''Error creating GitHub PR: '' @ missing_token_message), w)
       \<and> calls (snd (main env cl w)) = calls w"
  using assms
  by (simp add: get_github_client_missing run_no_token main_def py_print_def)

text \<open>
  An empty environment.
\<close>

theorem missing_credential_no_call_witness:
  "create_pull_request (env_of []) (fake_hub []) ''owner/repo'' ''T'' ''B'' ''feature/x'' ''main''
       (Some [''bug'']) start
     = (Inr (''Error creating GitHub PR: '' @ missing_token_message), start)
   \<and> calls start = []"
proof -
  have "token_of (env_of []) = None \<or> token_of (env_of []) = Some []"
    by (simp add: token_of_def env_of_def py_or_def)
  from missing_credential_no_call [OF this, of "fake_hub []" start]
  show ?thesis by (simp add: start_def)
qed

subsection \<open>A failing create call\<close>



subsection \<open>The default base branch\<close>

text \<open>
  Claim C10. A call that leaves the base branch out is the same call with the base branch
  \<^verbatim>\<open>"staging"\<close>, and it is \<^verbatim>\<open>create_pull_request\<close> run with the base \<^verbatim>\<open>"staging"\<close>: same
  result, same calls on the client, same output. What the client sees of it: in every such
  run that gets as far as the create call, whether that call then succeeds or raises, the
  run records exactly one create call, and that call carries the title, body and head as
  passed and the base \<^verbatim>\<open>"staging"\<close>.
\<close>

theorem default_base_staging:
  "create_pull_request_call env cl repo_name title body head None labels w =
     create_pull_request_call env cl repo_name title body head (Some ''staging'') labels w
   \<and> create_pull_request_call env cl repo_name title body head None labels w =
     create_pull_request env cl repo_name title body head ''staging'' labels w
   \<and> (\<forall>tok g repo.
         token_of env = Some tok \<and> tok \<noteq> []
         \<and> new_github cl tok (calls w) = Inr g
         \<and> get_repo cl g repo_name (calls w @ [NewGithub tok]) = Inr repo
         \<longrightarrow> filter is_create_pull
               (drop (length (calls w))
                  (calls (snd (create_pull_request_call env cl repo_name title body head None
                                 labels w))))
             = [CreatePull repo title body head ''staging''])"
proof (intro conjI allI impI)
  show "create_pull_request_call env cl repo_name title body head None labels w =
     create_pull_request_call env cl repo_name title body head (Some ''staging'') labels w"
    by (simp add: create_pull_request_call_def)
  show "create_pull_request_call env cl repo_name title body head None labels w =
     create_pull_request env cl repo_name title body head ''staging'' labels w"
    by (simp add: create_pull_request_call_def)
next
  fix tok g repo
  assume a: "token_of env = Some tok \<and> tok \<noteq> []
         \<and> new_github cl tok (calls w) = Inr g
         \<and> get_repo cl g repo_name (calls w @ [NewGithub tok]) = Inr repo"
  then have "filter is_create_pull
           (drop (length (calls w))
              (calls (snd (create_pull_request env cl repo_name title body head ''staging''
                             labels w))))
         = [CreatePull repo title body head ''staging'']"
    by (intro create_call_recorded [where tok = tok and g = g]) blast+
  then show "filter is_create_pull
               (drop (length (calls w))
                  (calls (snd (create_pull_request_call env cl repo_name title body head None
                                 labels w))))
             = [CreatePull repo title body head ''staging'']"
    by (simp add: create_pull_request_call_def)
qed

text \<open>
  A run without a base against the example client.
\<close>

theorem default_base_staging_witness:
  "filter is_create_pull
     (calls (snd (create_pull_request_call (env_of [(''GITHUB_TOKEN'', ''t'')]) (fake_hub [''bug''])
                    ''owner/repo'' ''T'' ''B'' ''feature/x'' None (Some [''bug'']) start)))
     = [CreatePull (Repository ''owner/repo'') ''T'' ''B'' ''feature/x'' ''staging'']"
proof -
  have "token_of (env_of [(''GITHUB_TOKEN'', ''t'')]) = Some ''t'' \<and> ''t'' \<noteq> []
         \<and> new_github (fake_hub [''bug'']) ''t'' (calls start) = Inr (Github ''t'')
         \<and> get_repo (fake_hub [''bug'']) (Github ''t'') ''owner/repo'' (calls start @ [NewGithub ''t''])
             = Inr (Repository ''owner/repo'')"
    by (simp add: example_token example_created)
  from default_base_staging [THEN conjunct2, THEN conjunct2, rule_format, OF this]
  show ?thesis by (simp add: start_def)
qed

subsection \<open>Exceptions and the boundary of \<^verbatim>\<open>create_pull_request\<close>\<close>




subsection \<open>The calls of a run\<close>

text \<open>
  Claim C2 as the specification states it: with valid parameters and a non-empty list of
  labels, exactly one attach call is issued. It fails where no label resolves: the pull
  request is created, the result is the success string, and the log holds no attach call,
  since line 69 skips the call when \<open>label_objects\<close> is empty.
\<close>

theorem add_labels_call_counterexample:
  "fst (create_pull_request (env_of [(''GITHUB_TOKEN'', ''t'')]) (fake_hub [''bug'']) ''owner/repo''
          ''T'' ''B'' ''feature/x'' ''main'' (Some [''needs-review'']) start)
     = Inr (success_string (PullRequest 1 ''https://example.org/pull''))
   \<and> \<not> ([''needs-review''] \<noteq> [] \<longrightarrow>
          length (filter is_add_to_labels
            (calls (snd (create_pull_request (env_of [(''GITHUB_TOKEN'', ''t'')]) (fake_hub [''bug''])
               ''owner/repo'' ''T'' ''B'' ''feature/x'' ''main'' (Some [''needs-review'']) start))))
          = 1)"
  by (simp add: run_defs)

text \<open>
  Claim C2, amended. When the pull request is created (a token is found, the client is
  constructed, the repository is fetched, the create call returns \<open>pr\<close>), the run adds
  exactly one create call to the log, carrying the title, body, head and base as they were
  passed in. When moreover every label lookup passes (it returns a label, or raises an
  exception derived from \<^verbatim>\<open>Exception\<close> whose \<^verbatim>\<open>str()\<close> returns), the calls the run adds are
  the constructor call, the repository fetch, the create call, one \<^verbatim>\<open>get_label\<close> call for
  each name and, when at least one label resolved, one attach call with exactly the labels
  that resolved, in the order of the names. When no label resolved (also when \<open>labels\<close> is
  \<^verbatim>\<open>None\<close> or empty) there is no attach call.
\<close>

theorem calls_of_a_run:
  fixes env :: env and cl :: client and w :: world and tok repo_name title body head base :: string
    and g :: github and repo :: repository and pr :: pull_request and labels :: "string list option"
  defines "names \<equiv> (case labels of None \<Rightarrow> [] | Some ns \<Rightarrow> ns)"
  defines "L3 \<equiv> calls w @ [NewGithub tok, GetRepo g repo_name, CreatePull repo title body head base]"
  defines "rs \<equiv> label_replies cl repo names L3"
  defines "new \<equiv> drop (length (calls w))
                    (calls (snd (create_pull_request env cl repo_name title body head base labels w)))"
  assumes "token_of env = Some tok" and "tok \<noteq> []"
    and "new_github cl tok (calls w) = Inr g"
    and "get_repo cl g repo_name (calls w @ [NewGithub tok]) = Inr repo"
    and "create_pull cl repo title body head base (calls w @ [NewGithub tok, GetRepo g repo_name])
           = Inr pr"
  shows "filter is_create_pull new = [CreatePull repo title body head base]
       \<and> (list_all (\<lambda>r. passes (snd r)) rs \<longrightarrow>
            new = [NewGithub tok, GetRepo g repo_name, CreatePull repo title body head base]
                    @ map (GetLabel repo) names
                    @ (if resolved rs = [] then [] else [AddToLabels pr (resolved rs)])
            \<and> filter is_add_to_labels new =
                (if resolved rs = [] then [] else [AddToLabels pr (resolved rs)]))"
proof (intro conjI impI)
  let ?w3 = "w\<lparr>calls := calls w @ [NewGithub tok, GetRepo g repo_name,
                                      CreatePull repo title body head base]\<rparr>"
  obtain ext where ext: "calls (snd (attach_labels cl repo pr labels ?w3)) = calls ?w3 @ ext"
    and nc: "filter is_create_pull ext = []"
    using attach_labels_calls [of cl repo pr labels ?w3] by blast
  have "snd (create_pull_request_try env cl repo_name title body head base labels w)
          = snd (attach_labels cl repo pr labels ?w3)"
    unfolding try_created [OF assms(5-9)]
    by (cases "attach_labels cl repo pr labels ?w3") (auto split: sum.splits)
  then have "new = [NewGithub tok, GetRepo g repo_name, CreatePull repo title body head base] @ ext"
    unfolding new_def handler_world using ext by simp
  then show "filter is_create_pull new = [CreatePull repo title body head base]"
    using nc by simp
next
  assume p: "list_all (\<lambda>r. passes (snd r)) rs"
  have new: "new = [NewGithub tok, GetRepo g repo_name, CreatePull repo title body head base]
                 @ map (GetLabel repo) names
                 @ (if resolved rs = [] then [] else [AddToLabels pr (resolved rs)])"
  proof (cases labels)
    case None
    then show ?thesis
      using run_no_labels [OF assms(5-9), of labels]
      by (simp add: new_def names_def rs_def)
  next
    case (Some ns)
    with p have "list_all (\<lambda>r. passes (snd r)) (label_replies cl repo ns
           (calls w @ [NewGithub tok, GetRepo g repo_name, CreatePull repo title body head base]))"
      by (simp add: rs_def names_def L3_def)
    from run_labels_world [OF assms(5-9) this] Some show ?thesis
      by (simp add: new_def names_def rs_def L3_def)
  qed
  show "new = [NewGithub tok, GetRepo g repo_name, CreatePull repo title body head base]
                 @ map (GetLabel repo) names
                 @ (if resolved rs = [] then [] else [AddToLabels pr (resolved rs)])"
    by (rule new)
  show "filter is_add_to_labels new =
                (if resolved rs = [] then [] else [AddToLabels pr (resolved rs)])"
    unfolding new by simp
qed

text \<open>
  The example of the specification: one create call, one attach call with \<^verbatim>\<open>bug\<close>.
\<close>

theorem calls_of_a_run_witness:
  "filter is_create_pull
     (calls (snd (create_pull_request (env_of [(''GITHUB_TOKEN'', ''t'')]) (fake_hub [''bug''])
        ''owner/repo'' ''T'' ''B'' ''feature/x'' ''main'' (Some [''bug'', ''needs-review'']) start)))
     = [CreatePull (Repository ''owner/repo'') ''T'' ''B'' ''feature/x'' ''main'']
   \<and> filter is_add_to_labels
     (calls (snd (create_pull_request (env_of [(''GITHUB_TOKEN'', ''t'')]) (fake_hub [''bug''])
        ''owner/repo'' ''T'' ''B'' ''feature/x'' ''main'' (Some [''bug'', ''needs-review'']) start)))
     = [AddToLabels (PullRequest 1 ''https://example.org/pull'') [Label ''bug'']]"
proof -
  have 2: "''t'' \<noteq> []" by simp
  note run = calls_of_a_run [OF example_token 2 example_created,
      of "[''bug'']" "Some [''bug'', ''needs-review'']"]
  from run [THEN conjunct1] run [THEN conjunct2, rule_format, OF fake_hub_passes]
  show ?thesis
    by (simp add: fake_hub_def start_def)
qed

subsection \<open>Labels that do not resolve\<close>

text \<open>
  Claim C3 as the specification states it: whenever some of the label names fail to
  resolve, the result is the success string. It fails when the attach call raises: with
  the labels \<^verbatim>\<open>needs-review\<close>, which does not resolve, and \<^verbatim>\<open>bug\<close>, which does, and an attach
  call that is refused, the pull request is created and the result is the error string of
  the refusal. The handler of line 74 covers the attach call like every other call.
\<close>

theorem attach_failure_counterexample:
  "fst (create_pull_request (env_of [(''GITHUB_TOKEN'', ''t'')])
          ((fake_hub [''bug''])\<lparr>add_to_labels := \<lambda>pr ls L. Inl (GithubException ''403 Forbidden'')\<rparr>)
          ''owner/repo'' ''T'' ''B'' ''feature/x'' ''main'' (Some [''needs-review'', ''bug'']) start)
     = Inr ''Error creating GitHub PR: 403 Forbidden''
   \<and> fst (create_pull_request (env_of [(''GITHUB_TOKEN'', ''t'')])
          ((fake_hub [''bug''])\<lparr>add_to_labels := \<lambda>pr ls L. Inl (GithubException ''403 Forbidden'')\<rparr>)
          ''owner/repo'' ''T'' ''B'' ''feature/x'' ''main'' (Some [''needs-review'', ''bug'']) start)
     \<noteq> Inr (success_string (PullRequest 1 ''https://example.org/pull''))"
  by (simp add: run_defs success_string_def)

text \<open>
  Claim C3, amended. When the pull request is created, every label lookup passes (it
  returns a label, or raises an exception derived from \<^verbatim>\<open>Exception\<close> whose \<^verbatim>\<open>str()\<close> returns)
  and the attach call, if there is one, does not raise, then for every list of label names
  the result is the success string, whichever names fail to resolve. Each name is asked
  for once, in order; each name that fails adds one warning line to standard output
  (\<open>warnings\<close>) and nothing else, so the names after it are still resolved; and the one
  attach call carries exactly the labels that resolved, in the order of the names
  (\<open>resolved\<close>). When none resolved there is no attach call.
\<close>

theorem unresolved_labels_skipped:
  fixes env :: env and cl :: client and w :: world and tok repo_name title body head base :: string
    and g :: github and repo :: repository and pr :: pull_request and names :: "string list"
  defines "L3 \<equiv> calls w @ [NewGithub tok, GetRepo g repo_name, CreatePull repo title body head base]"
  defines "rs \<equiv> label_replies cl repo names L3"
  assumes "token_of env = Some tok" and "tok \<noteq> []"
    and "new_github cl tok (calls w) = Inr g"
    and "get_repo cl g repo_name (calls w @ [NewGithub tok]) = Inr repo"
    and "create_pull cl repo title body head base (calls w @ [NewGithub tok, GetRepo g repo_name])
           = Inr pr"
    and "list_all (\<lambda>r. passes (snd r)) rs"
    and "resolved rs \<noteq> [] \<longrightarrow>
           add_to_labels cl pr (resolved rs) (L3 @ map (GetLabel repo) names) = Inr ()"
  shows "create_pull_request env cl repo_name title body head base (Some names) w =
           (Inr (success_string pr),
            w\<lparr>calls := L3 @ map (GetLabel repo) names
                          @ (if resolved rs = [] then [] else [AddToLabels pr (resolved rs)]),
              stdout := stdout w @ warnings rs\<rparr>)"
proof -
  have p: "list_all (\<lambda>r. passes (snd r)) (label_replies cl repo names
           (calls w @ [NewGithub tok, GetRepo g repo_name, CreatePull repo title body head base]))"
    using assms(8) by (simp add: rs_def L3_def)
  have a: "resolved (label_replies cl repo names
            (calls w @ [NewGithub tok, GetRepo g repo_name, CreatePull repo title body head base])) \<noteq> []
         \<longrightarrow> add_to_labels cl pr
                   (resolved (label_replies cl repo names
                      (calls w @ [NewGithub tok, GetRepo g repo_name, CreatePull repo title body head base])))
                   (calls w @ [NewGithub tok, GetRepo g repo_name,
                               CreatePull repo title body head base] @ map (GetLabel repo) names)
               = Inr ()"
    using assms(9) by (simp add: rs_def L3_def)
  from run_labels_ok [OF assms(3-7) p a] run_labels_world [OF assms(3-7) p]
  show ?thesis
    by (simp add: prod_eq_iff rs_def L3_def)
qed

text \<open>
  The example of the specification: \<^verbatim>\<open>needs-review\<close> does not resolve, \<^verbatim>\<open>bug\<close> is attached, one
  warning is printed, and the result reports pull request 1.
\<close>

theorem unresolved_labels_skipped_witness:
  "create_pull_request (env_of [(''GITHUB_TOKEN'', ''t'')]) (fake_hub [''bug'']) ''owner/repo''
       ''T'' ''B'' ''feature/x'' ''main'' (Some [''bug'', ''needs-review'']) start
     = (Inr (success_string (PullRequest 1 ''https://example.org/pull'')),
        \<lparr>calls = [NewGithub ''t'', GetRepo (Github ''t'') ''owner/repo'',
                  CreatePull (Repository ''owner/repo'') ''T'' ''B'' ''feature/x'' ''main'',
                  GetLabel (Repository ''owner/repo'') ''bug'',
                  GetLabel (Repository ''owner/repo'') ''needs-review'',
                  AddToLabels (PullRequest 1 ''https://example.org/pull'') [Label ''bug'']],
         stdout = warning_string ''needs-review'' ''404 Not Found'' @ [CHR 0x0A]\<rparr>)"
proof -
  let ?cl = "fake_hub [''bug'']"
  have 2: "''t'' \<noteq> []" by simp
  have 6: "resolved (label_replies ?cl (Repository ''owner/repo'') [''bug'', ''needs-review'']
              (calls start @ [NewGithub ''t'', GetRepo (Github ''t'') ''owner/repo'',
                 CreatePull (Repository ''owner/repo'') ''T'' ''B'' ''feature/x'' ''main''])) \<noteq> []
        \<longrightarrow> add_to_labels ?cl (PullRequest 1 ''https://example.org/pull'')
              (resolved (label_replies ?cl (Repository ''owner/repo'') [''bug'', ''needs-review'']
                (calls start @ [NewGithub ''t'', GetRepo (Github ''t'') ''owner/repo'',
                   CreatePull (Repository ''owner/repo'') ''T'' ''B'' ''feature/x'' ''main''])))
              ((calls start @ [NewGithub ''t'', GetRepo (Github ''t'') ''owner/repo'',
                   CreatePull (Repository ''owner/repo'') ''T'' ''B'' ''feature/x'' ''main''])
                 @ map (GetLabel (Repository ''owner/repo'')) [''bug'', ''needs-review''])
            = Inr ()"
    by (simp add: fake_hub_def)
  from unresolved_labels_skipped [OF example_token 2 example_created fake_hub_passes 6]
  show ?thesis
    by (simp add: fake_hub_def start_def)
qed

subsection \<open>No attach call without a resolved label\<close>



subsection \<open>What \<^verbatim>\<open>main\<close> prints\<close>

text \<open>
  Claim C7 as the specification states it: every run prints exactly one line. It fails
  when the message of the exception holds a line feed: the script prints the message as
  it is, so the output has two lines.
\<close>

theorem main_two_lines_counterexample:
  "stdout (snd (main (env_of [(''GITHUB_TOKEN'', ''t'')])
       ((fake_hub [])\<lparr>create_pull := \<lambda>repo title body head base L.
           Inl (GithubException (''422 Validation Failed'' @ [CHR 0x0A] @ ''head: invalid''))\<rparr>)
       start))
     = ''Error creating GitHub PR: 422 Validation Failed'' @ [CHR 0x0A]
         @ ''head: invalid'' @ [CHR 0x0A]
   \<and> line_feeds (stdout (snd (main (env_of [(''GITHUB_TOKEN'', ''t'')])
       ((fake_hub [])\<lparr>create_pull := \<lambda>repo title body head base L.
           Inl (GithubException (''422 Validation Failed'' @ [CHR 0x0A] @ ''head: invalid''))\<rparr>)
       start))) = 2"
  by (simp add: main_def run_defs line_feeds_def)

text \<open>
  Claim C7, amended. \<^verbatim>\<open>main\<close> prints once, the string it returns and a line feed, and it
  prints nothing when an exception leaves it. The string is tied to the run: without a
  token it is the error string of the missing credential; when the constructor, the
  repository fetch or the create call raises an exception derived from \<^verbatim>\<open>Exception\<close> with
  message \<open>m\<close>, it is \<^verbatim>\<open>Error creating GitHub PR: \<close> followed by \<open>m\<close>; when the create call
  returns \<open>pr\<close>, it is \<^verbatim>\<open>Successfully created PR #\<close>, the number of \<open>pr\<close>, a colon and the URL
  of \<open>pr\<close>. In each case the calls recorded are those made up to that point, and no label
  call follows. The output has one line feed more than the string, so it is exactly one
  line when the message, or the URL, holds no line feed.
\<close>

theorem main_prints_result:
  "(token_of env = None \<or> token_of env = Some [] \<longrightarrow>
      main env cl w =
        (Inr (''Error creating GitHub PR: '' @ missing_token_message),
         w\<lparr>stdout := stdout w @ ''Error creating GitHub PR: '' @ missing_token_message
                         @ [CHR 0x0A]\<rparr>))
   \<and> (\<forall>tok e m. token_of env = Some tok \<and> tok \<noteq> []
          \<and> new_github cl tok (calls w) = Inl e
          \<and> is_exception e \<and> py_str e = Inr m \<longrightarrow>
        main env cl w =
          (Inr (''Error creating GitHub PR: '' @ m),
           w\<lparr>calls := calls w @ [NewGithub tok],
             stdout := stdout w @ ''Error creating GitHub PR: '' @ m @ [CHR 0x0A]\<rparr>))
   \<and> (\<forall>tok g e m. token_of env = Some tok \<and> tok \<noteq> []
          \<and> new_github cl tok (calls w) = Inr g
          \<and> get_repo cl g pr_repo_name (calls w @ [NewGithub tok]) = Inl e
          \<and> is_exception e \<and> py_str e = Inr m \<longrightarrow>
        main env cl w =
          (Inr (''Error creating GitHub PR: '' @ m),
           w\<lparr>calls := calls w @ [NewGithub tok, GetRepo g pr_repo_name],
             stdout := stdout w @ ''Error creating GitHub PR: '' @ m @ [CHR 0x0A]\<rparr>))
   \<and> (\<forall>tok g repo e m. token_of env = Some tok \<and> tok \<noteq> []
          \<and> new_github cl tok (calls w) = Inr g
          \<and> get_repo cl g pr_repo_name (calls w @ [NewGithub tok]) = Inr repo
          \<and> create_pull cl repo pr_title pr_body pr_head pr_base
                (calls w @ [NewGithub tok, GetRepo g pr_repo_name]) = Inl e
          \<and> is_exception e \<and> py_str e = Inr m \<longrightarrow>
        main env cl w =
          (Inr (''Error creating GitHub PR: '' @ m),
           w\<lparr>calls := calls w @ [NewGithub tok, GetRepo g pr_repo_name,
                                    CreatePull repo pr_title pr_body pr_head pr_base],
             stdout := stdout w @ ''Error creating GitHub PR: '' @ m @ [CHR 0x0A]\<rparr>))
   \<and> (\<forall>tok g repo pr. token_of env = Some tok \<and> tok \<noteq> []
          \<and> new_github cl tok (calls w) = Inr g
          \<and> get_repo cl g pr_repo_name (calls w @ [NewGithub tok]) = Inr repo
          \<and> create_pull cl repo pr_title pr_body pr_head pr_base
                (calls w @ [NewGithub tok, GetRepo g pr_repo_name]) = Inr pr \<longrightarrow>
        main env cl w =
          (Inr (''Successfully created PR #'' @ str_int (number pr) @ '': '' @ html_url pr),
           w\<lparr>calls := calls w @ [NewGithub tok, GetRepo g pr_repo_name,
                                    CreatePull repo pr_title pr_body pr_head pr_base],
             stdout := stdout w @ ''Successfully created PR #'' @ str_int (number pr) @ '': ''
                         @ html_url pr @ [CHR 0x0A]\<rparr>))
   \<and> (\<forall>r. fst (main env cl w) = Inr r \<longrightarrow>
          stdout (snd (main env cl w)) = stdout w @ r @ [CHR 0x0A]
        \<and> line_feeds (drop (length (stdout w)) (stdout (snd (main env cl w))))
            = line_feeds r + 1)
   \<and> (\<forall>e. fst (main env cl w) = Inl e \<longrightarrow> stdout (snd (main env cl w)) = stdout w)"
  (is "?missing \<and> ?ctor \<and> ?repo \<and> ?create \<and> ?created \<and> ?printed \<and> ?raised")
proof -
  have missing: ?missing
    using main_returned [OF run_no_token] by simp
  have ctor: ?ctor
  proof (intro allI impI)
    fix tok e m
    assume a: "token_of env = Some tok \<and> tok \<noteq> []
          \<and> new_github cl tok (calls w) = Inl e
          \<and> is_exception e \<and> py_str e = Inr m"
    then have "create_pull_request env cl pr_repo_name pr_title pr_body pr_head pr_base (Some []) w
        = (Inr (''Error creating GitHub PR: '' @ m), w\<lparr>calls := calls w @ [NewGithub tok]\<rparr>)"
      by (intro run_new_github_fails [where e = e]) blast+
    from main_returned [OF this]
    show "main env cl w =
          (Inr (''Error creating GitHub PR: '' @ m),
           w\<lparr>calls := calls w @ [NewGithub tok],
             stdout := stdout w @ ''Error creating GitHub PR: '' @ m @ [CHR 0x0A]\<rparr>)"
      by simp
  qed
  have repo: ?repo
  proof (intro allI impI)
    fix tok g e m
    assume a: "token_of env = Some tok \<and> tok \<noteq> []
          \<and> new_github cl tok (calls w) = Inr g
          \<and> get_repo cl g pr_repo_name (calls w @ [NewGithub tok]) = Inl e
          \<and> is_exception e \<and> py_str e = Inr m"
    then have "create_pull_request env cl pr_repo_name pr_title pr_body pr_head pr_base (Some []) w
        = (Inr (''Error creating GitHub PR: '' @ m),
           w\<lparr>calls := calls w @ [NewGithub tok, GetRepo g pr_repo_name]\<rparr>)"
      by (intro run_get_repo_fails [where e = e]) blast+
    from main_returned [OF this]
    show "main env cl w =
          (Inr (''Error creating GitHub PR: '' @ m),
           w\<lparr>calls := calls w @ [NewGithub tok, GetRepo g pr_repo_name],
             stdout := stdout w @ ''Error creating GitHub PR: '' @ m @ [CHR 0x0A]\<rparr>)"
      by simp
  qed
  have create: ?create
  proof (intro allI impI)
    fix tok g repo e m
    assume a: "token_of env = Some tok \<and> tok \<noteq> []
          \<and> new_github cl tok (calls w) = Inr g
          \<and> get_repo cl g pr_repo_name (calls w @ [NewGithub tok]) = Inr repo
          \<and> create_pull cl repo pr_title pr_body pr_head pr_base
                (calls w @ [NewGithub tok, GetRepo g pr_repo_name]) = Inl e
          \<and> is_exception e \<and> py_str e = Inr m"
    then have "create_pull_request env cl pr_repo_name pr_title pr_body pr_head pr_base (Some []) w
        = (Inr (''Error creating GitHub PR: '' @ m),
           w\<lparr>calls := calls w @ [NewGithub tok, GetRepo g pr_repo_name,
                                    CreatePull repo pr_title pr_body pr_head pr_base]\<rparr>)"
      by (intro run_create_fails [where e = e]) blast+
    from main_returned [OF this]
    show "main env cl w =
          (Inr (''Error creating GitHub PR: '' @ m),
           w\<lparr>calls := calls w @ [NewGithub tok, GetRepo g pr_repo_name,
                                    CreatePull repo pr_title pr_body pr_head pr_base],
             stdout := stdout w @ ''Error creating GitHub PR: '' @ m @ [CHR 0x0A]\<rparr>)"
      by simp
  qed
  have created: ?created
  proof (intro allI impI)
    fix tok g repo pr
    assume a: "token_of env = Some tok \<and> tok \<noteq> []
          \<and> new_github cl tok (calls w) = Inr g
          \<and> get_repo cl g pr_repo_name (calls w @ [NewGithub tok]) = Inr repo
          \<and> create_pull cl repo pr_title pr_body pr_head pr_base
                (calls w @ [NewGithub tok, GetRepo g pr_repo_name]) = Inr pr"
    then have "create_pull_request env cl pr_repo_name pr_title pr_body pr_head pr_base (Some []) w
        = (Inr (success_string pr),
           w\<lparr>calls := calls w @ [NewGithub tok, GetRepo g pr_repo_name,
                                    CreatePull repo pr_title pr_body pr_head pr_base]\<rparr>)"
      by (intro run_no_labels) blast+
    from main_returned [OF this]
    show "main env cl w =
          (Inr (''Successfully created PR #'' @ str_int (number pr) @ '': '' @ html_url pr),
           w\<lparr>calls := calls w @ [NewGithub tok, GetRepo g pr_repo_name,
                                    CreatePull repo pr_title pr_body pr_head pr_base],
             stdout := stdout w @ ''Successfully created PR #'' @ str_int (number pr) @ '': ''
                         @ html_url pr @ [CHR 0x0A]\<rparr>)"
      by (simp add: success_string_def)
  qed
  obtain x w' where run:
    "create_pull_request env cl pr_repo_name pr_title pr_body pr_head pr_base (Some []) w = (x, w')"
    by (cases "create_pull_request env cl pr_repo_name pr_title pr_body pr_head pr_base (Some []) w")
  with main_call_prints_nothing [of env cl w] have quiet: "stdout w' = stdout w"
    by simp
  have printed: ?printed
  proof (intro allI impI)
    fix r
    assume "fst (main env cl w) = Inr r"
    with run have "x = Inr r"
      by (cases x) (simp_all add: main_def)
    with run quiet have out: "stdout (snd (main env cl w)) = stdout w @ r @ [CHR 0x0A]"
      by (simp add: main_def py_print_def)
    then show "stdout (snd (main env cl w)) = stdout w @ r @ [CHR 0x0A]
        \<and> line_feeds (drop (length (stdout w)) (stdout (snd (main env cl w))))
            = line_feeds r + 1"
      by (simp add: line_feeds_def)
  qed
  have raised: ?raised
  proof (intro allI impI)
    fix e
    assume "fst (main env cl w) = Inl e"
    with run have "x = Inl e"
      by (cases x) (simp_all add: main_def)
    with run quiet show "stdout (snd (main env cl w)) = stdout w"
      by (simp add: main_def)
  qed
  from missing ctor repo create created printed raised show ?thesis by blast
qed

text \<open>
  A run that creates pull request 1, and a run without a token.
\<close>

theorem main_prints_result_witness:
  "main (env_of [(''GITHUB_TOKEN'', ''t'')]) (fake_hub []) start =
     (Inr ''Successfully created PR #1: https://example.org/pull'',
      \<lparr>calls = [NewGithub ''t'', GetRepo (Github ''t'') pr_repo_name,
                CreatePull (Repository pr_repo_name) pr_title pr_body pr_head pr_base],
       stdout = ''Successfully created PR #1: https://example.org/pull'' @ [CHR 0x0A]\<rparr>)
   \<and> main (env_of []) (fake_hub []) start =
     (Inr (''Error creating GitHub PR: '' @ missing_token_message),
      \<lparr>calls = [],
       stdout = ''Error creating GitHub PR: '' @ missing_token_message @ [CHR 0x0A]\<rparr>)"
proof (intro conjI)
  let ?cl = "fake_hub []"
  have "token_of (env_of [(''GITHUB_TOKEN'', ''t'')]) = Some ''t'' \<and> ''t'' \<noteq> []
          \<and> new_github ?cl ''t'' (calls start) = Inr (Github ''t'')
          \<and> get_repo ?cl (Github ''t'') pr_repo_name (calls start @ [NewGithub ''t''])
               = Inr (Repository pr_repo_name)
          \<and> create_pull ?cl (Repository pr_repo_name) pr_title pr_body pr_head pr_base
                (calls start @ [NewGithub ''t'', GetRepo (Github ''t'') pr_repo_name])
               = Inr (PullRequest 1 ''https://example.org/pull'')"
    by (simp add: example_token fake_hub_def start_def)
  from main_prints_result
         [THEN conjunct2, THEN conjunct2, THEN conjunct2, THEN conjunct2, THEN conjunct1,
          rule_format, OF this]
  show "main (env_of [(''GITHUB_TOKEN'', ''t'')]) (fake_hub []) start =
     (Inr ''Successfully created PR #1: https://example.org/pull'',
      \<lparr>calls = [NewGithub ''t'', GetRepo (Github ''t'') pr_repo_name,
                CreatePull (Repository pr_repo_name) pr_title pr_body pr_head pr_base],
       stdout = ''Successfully created PR #1: https://example.org/pull'' @ [CHR 0x0A]\<rparr>)"
    by (simp add: start_def str_int_1)
next
  have "token_of (env_of []) = None \<or> token_of (env_of []) = Some []"
    by (simp add: token_of_def env_of_def py_or_def)
  from main_prints_result [THEN conjunct1, rule_format, OF this]
  show "main (env_of []) (fake_hub []) start =
     (Inr (''Error creating GitHub PR: '' @ missing_token_message),
      \<lparr>calls = [],
       stdout = ''Error creating GitHub PR: '' @ missing_token_message @ [CHR 0x0A]\<rparr>)"
    by (simp add: start_def)
qed

subsection \<open>Calling twice\<close>



end
